theory Spec2Isabelle
  imports Main
begin

section \<open>JavaScript values and \<open>JSON.stringify\<close>\<close>

text \<open>
  The payloads of the secure library have the TypeScript type \<open>any\<close>. They are modelled by
  the values \<open>JSON.stringify\<close> distinguishes: \<open>undefined\<close>, \<open>null\<close>, booleans, (integer)
  numbers, strings, arrays and objects. An object is the list of its own properties in
  insertion order, which is the order \<open>JSON.stringify\<close> writes them in. A JavaScript string
  is modelled by the bytes of its UTF-8 encoding, so a \<open>Buffer\<close> and the string it encodes
  are the same byte list.
\<close>

datatype json =
    JUndefined
  | JNull
  | JBool bool
  | JNum int
  | JStr string
  | JArr "json list"
  | JObj "(string \<times> json) list"

fun digits :: "nat \<Rightarrow> string" where
  "digits n = (if n < 10 then [''0123456789'' ! n] else digits (n div 10) @ [''0123456789'' ! (n mod 10)])"

declare digits.simps [simp del]

definition hex :: "nat \<Rightarrow> char" where
  "hex n = ''0123456789abcdef'' ! n"

text \<open>The escapes of ECMAScript's \<open>QuoteJSONString\<close>: the two-character escapes, and
  \<open>\u00XX\<close> for the other control characters.\<close>

definition escape :: "char \<Rightarrow> string" where
  "escape c = (let n = (of_char c :: nat) in
     if n = 8 then [CHR 0x5C, CHR ''b'']
     else if n = 9 then [CHR 0x5C, CHR ''t'']
     else if n = 10 then [CHR 0x5C, CHR ''n'']
     else if n = 12 then [CHR 0x5C, CHR ''f'']
     else if n = 13 then [CHR 0x5C, CHR ''r'']
     else if n = 34 then [CHR 0x5C, CHR 0x22]
     else if n = 92 then [CHR 0x5C, CHR 0x5C]
     else if n < 32 then [CHR 0x5C, CHR ''u'', CHR ''0'', CHR ''0'', hex (n div 16), hex (n mod 16)]
     else [c])"

definition QuoteJSONString :: "string \<Rightarrow> string" where
  "QuoteJSONString s = CHR 0x22 # concat (map escape s) @ [CHR 0x22]"

fun join :: "string \<Rightarrow> string list \<Rightarrow> string" where
  "join sep [] = []"
| "join sep [x] = x"
| "join sep (x # y # ys) = x @ sep @ join sep (y # ys)"

text \<open>Serialization of a value in property or element position: an \<open>undefined\<close> array
  element is written \<open>null\<close>, a property whose value is \<open>undefined\<close> is left out.\<close>

fun SerializeJSONProperty :: "json \<Rightarrow> string" where
  "SerializeJSONProperty JUndefined = ''null''"
| "SerializeJSONProperty JNull = ''null''"
| "SerializeJSONProperty (JBool b) = (if b then ''true'' else ''false'')"
| "SerializeJSONProperty (JNum n) = (if n < 0 then CHR ''-'' # digits (nat (- n)) else digits (nat n))"
| "SerializeJSONProperty (JStr s) = QuoteJSONString s"
| "SerializeJSONProperty (JArr xs) = ''['' @ join '','' (map SerializeJSONProperty xs) @ '']''"
| "SerializeJSONProperty (JObj kvs) =
     ''{'' @ join '',''
        (map (\<lambda>kv. QuoteJSONString (fst kv) @ '':'' @ SerializeJSONProperty (snd kv))
             (filter (\<lambda>kv. snd kv \<noteq> JUndefined) kvs)) @ ''}''"

text \<open>\<open>JSON.stringify(v)\<close> is \<open>undefined\<close> (here \<open>None\<close>) when \<open>v\<close> is \<open>undefined\<close>.\<close>

definition JSON_stringify :: "json \<Rightarrow> string option" where
  "JSON_stringify v = (if v = JUndefined then None else Some (SerializeJSONProperty v))"

text \<open>The result of \<open>JSON.stringify\<close>, of type \<open>string | undefined\<close>, as a value again.\<close>

definition js_value :: "string option \<Rightarrow> json" where
  "js_value r = (case r of None \<Rightarrow> JUndefined | Some s \<Rightarrow> JStr s)"

section \<open>The Node.js primitives the library calls\<close>

text \<open>
  The functions of Node's \<open>crypto\<close>, \<open>Buffer\<close> and \<open>JSON\<close> that the source calls are
  parameters of the model. A primitive that can throw returns \<open>None\<close> where it throws.
  \<open>aes_256_cbc_encrypt env key iv plaintext\<close> is \<open>createCipheriv("aes-256-cbc", key, iv)\<close>
  followed by \<open>update\<close> and \<open>final\<close>; \<open>publicEncrypt\<close> takes the random seed of the OAEP
  padding as an explicit argument; \<open>sha256_base64\<close> is
  \<open>createHash("sha256").update(s).digest("base64")\<close>.
\<close>

type_synonym KeyObject = string

record node =
  sha256_base64 :: "string \<Rightarrow> string"
  base64_encode :: "string \<Rightarrow> string"
  base64_decode :: "string \<Rightarrow> string"
  aes_256_cbc_encrypt :: "KeyObject \<Rightarrow> string \<Rightarrow> string \<Rightarrow> string option"
  aes_256_cbc_decrypt :: "KeyObject \<Rightarrow> string \<Rightarrow> string \<Rightarrow> string option"
  publicEncrypt :: "KeyObject \<Rightarrow> string \<Rightarrow> string \<Rightarrow> string option"
  privateDecrypt :: "KeyObject \<Rightarrow> string \<Rightarrow> string option"
  JSON_parse :: "string \<Rightarrow> json option"
  createPublicKey :: "string \<Rightarrow> KeyObject option"
  export_pem :: "KeyObject \<Rightarrow> string"

text \<open>What the source throws: an \<open>Error\<close> with a message (the library), one of the
  NestJS HTTP exceptions (the service), or whatever a Node primitive throws
  (\<open>NodeError\<close>). \<open>ReplayError\<close> is the rejection of a nonce that was seen before.\<close>

datatype error =
    Error string
  | NodeError
  | BadRequestException "string list"
  | NotFoundException string
  | UnauthorizedException string
  | ReplayError

section \<open>The secure library\<close>

text \<open>
  \<open>CipherResult\<close> is \<open>{data, nonce}\<close>, \<open>ProtectedData\<close> is \<open>{mic, nonce, data}\<close>. The
  object \<open>protectAsymmetric\<close> returns has no \<open>nonce\<close> property, and \<open>check\<close> reads that
  property from whatever it is given, so the field is optional in the model: \<open>None\<close> is
  the absent property, which reads as \<open>undefined\<close>.
\<close>

record CipherResult =
  data :: string
  nonce :: "string option"

record ProtectedData = CipherResult +
  mic :: string

definition CipherResult_json :: "CipherResult \<Rightarrow> json" where
  "CipherResult_json c = JObj [(''data'', JStr (data c)), (''nonce'', js_value (nonce c))]"

definition secureHash :: "node \<Rightarrow> json \<Rightarrow> error + string" where
  "secureHash env v =
     (case JSON_stringify v of
        None \<Rightarrow> Inl NodeError
      | Some s \<Rightarrow> Inr (sha256_base64 env s))"

text \<open>\<open>createMIC\<close> and \<open>micMatch\<close> are called with a \<open>CipherResult\<close> by the library and
  with \<open>{nonce, data, publicKey}\<close> by the service; they take the object as a value.\<close>

definition createMIC :: "node \<Rightarrow> json \<Rightarrow> error + string" where
  "createMIC env cipheredData = secureHash env (js_value (JSON_stringify cipheredData))"

definition micMatch :: "node \<Rightarrow> string \<Rightarrow> json \<Rightarrow> error + bool" where
  "micMatch env m cipheredData =
     (case createMIC env cipheredData of
        Inl e \<Rightarrow> Inl e
      | Inr m' \<Rightarrow> Inr (m' = m))"

text \<open>\<open>rnd n\<close> is what \<open>crypto.randomBytes(n)\<close> returns in this call.\<close>

definition cipherData :: "node \<Rightarrow> (nat \<Rightarrow> string) \<Rightarrow> json \<Rightarrow> KeyObject \<Rightarrow> error + CipherResult" where
  "cipherData env rnd v secret =
     (let iv = rnd 16 in
      case JSON_stringify v of
        None \<Rightarrow> Inl NodeError
      | Some s \<Rightarrow>
          (case aes_256_cbc_encrypt env secret iv s of
             None \<Rightarrow> Inl NodeError
           | Some encrypted \<Rightarrow>
               Inr \<lparr>data = base64_encode env encrypted, nonce = Some (base64_encode env iv)\<rparr>))"

definition decipherData :: "node \<Rightarrow> 'a ProtectedData_scheme \<Rightarrow> KeyObject \<Rightarrow> error + json" where
  "decipherData env cipheredData secret =
     (case nonce cipheredData of
        None \<Rightarrow> Inl NodeError
      | Some n \<Rightarrow>
          (case aes_256_cbc_decrypt env secret (base64_decode env n)
                  (base64_decode env (data cipheredData)) of
             None \<Rightarrow> Inl NodeError
           | Some decrypted \<Rightarrow>
               (case JSON_parse env decrypted of
                  None \<Rightarrow> Inl NodeError
                | Some v \<Rightarrow> Inr v)))"

definition encryptAsymmetricData :: "node \<Rightarrow> string \<Rightarrow> json \<Rightarrow> KeyObject \<Rightarrow> error + string" where
  "encryptAsymmetricData env seed v publicKey =
     (case JSON_stringify v of
        None \<Rightarrow> Inl NodeError
      | Some s \<Rightarrow>
          (case publicEncrypt env publicKey seed s of
             None \<Rightarrow> Inl NodeError
           | Some encryptedBuffer \<Rightarrow> Inr (base64_encode env encryptedBuffer)))"

definition decryptAsymmetricData :: "node \<Rightarrow> 'a ProtectedData_scheme \<Rightarrow> KeyObject \<Rightarrow> error + json" where
  "decryptAsymmetricData env cipheredData privateKey =
     (case privateDecrypt env privateKey (base64_decode env (data cipheredData)) of
        None \<Rightarrow> Inl NodeError
      | Some decryptedBuffer \<Rightarrow>
          (case JSON_parse env decryptedBuffer of
             None \<Rightarrow> Inl NodeError
           | Some v \<Rightarrow> Inr v))"

definition generateSymmetricKey :: "(nat \<Rightarrow> string) \<Rightarrow> KeyObject" where
  "generateSymmetricKey rnd = rnd 32"

text \<open>In \<open>protect\<close> the test \<open>!cipheredData\<close> is on an object, which is never falsy; in
  \<open>protectAsymmetric\<close> it is on a string, which is falsy when empty.\<close>

definition protect :: "node \<Rightarrow> (nat \<Rightarrow> string) \<Rightarrow> json \<Rightarrow> KeyObject \<Rightarrow> error + ProtectedData" where
  "protect env rnd v secret =
     (case cipherData env rnd v secret of
        Inl e \<Rightarrow> Inl e
      | Inr cipheredData \<Rightarrow>
          (case createMIC env (CipherResult_json cipheredData) of
             Inl e \<Rightarrow> Inl e
           | Inr m \<Rightarrow> Inr \<lparr>data = data cipheredData, nonce = nonce cipheredData, mic = m\<rparr>))"

definition protectAsymmetric :: "node \<Rightarrow> string \<Rightarrow> json \<Rightarrow> KeyObject \<Rightarrow> error + ProtectedData" where
  "protectAsymmetric env seed v secret =
     (case encryptAsymmetricData env seed v secret of
        Inl e \<Rightarrow> Inl e
      | Inr cipheredData \<Rightarrow>
          if cipheredData = [] then Inl (Error ''Failed to cipher data.'')
          else
            (case secureHash env (js_value (JSON_stringify (JStr cipheredData))) of
               Inl e \<Rightarrow> Inl e
             | Inr m \<Rightarrow> Inr \<lparr>data = cipheredData, nonce = None, mic = m\<rparr>))"

definition check :: "node \<Rightarrow> 'a ProtectedData_scheme \<Rightarrow> error + bool" where
  "check env p = micMatch env (mic p) (CipherResult_json \<lparr>data = data p, nonce = nonce p\<rparr>)"

definition unprotect :: "node \<Rightarrow> ProtectedData \<Rightarrow> KeyObject \<Rightarrow> error + json" where
  "unprotect env protectedData key =
     (case check env protectedData of
        Inl e \<Rightarrow> Inl e
      | Inr ok \<Rightarrow>
          if \<not> ok then Inl (Error ''Failed to decipher: compromised data!'')
          else decipherData env protectedData key)"

definition unprotectAsymmetric :: "node \<Rightarrow> ProtectedData \<Rightarrow> KeyObject \<Rightarrow> error + json" where
  "unprotectAsymmetric env protectedData key =
     (case check env protectedData of
        Inl e \<Rightarrow> Inl e
      | Inr ok \<Rightarrow>
          if \<not> ok then Inl (Error ''Failed to decipher: compromised data!'')
          else decryptAsymmetricData env protectedData key)"

section \<open>The client service\<close>

text \<open>
  Instants are milliseconds since the epoch (\<open>DateTime.now()\<close> is the argument \<open>now\<close>);
  a session's \<open>expire\<close>, an ISO string in the source, is the instant it denotes. The
  fields of a stored session are \<open>_id\<close>, \<open>sessionKey\<close>, \<open>client\<close>, \<open>publicKey\<close> and
  \<open>expire\<close>; \<open>_id\<close> is \<open>sid\<close> and \<open>publicKey\<close> is \<open>clientKey\<close> here, record fields
  sharing one name space.
\<close>

record LoginRequest = ProtectedData +
  publicKey :: string

record Client =
  name :: string
  password :: string

record Session =
  sid :: string
  sessionKey :: string
  client :: Client
  clientKey :: string
  expire :: int

text \<open>
  The service object with the collaborators it holds: the nonce cache (nonce to the
  instant its entry expires, with the cache's time to live), the client and session
  collections, the file system \<open>writeFileSync\<close> writes to, and the logger's output.
\<close>

record ClientService =
  privateKey :: KeyObject
  nonceCache :: "string option \<rightharpoonup> int"
  nonceTTL :: int
  clientModel :: "string \<rightharpoonup> Client"
  sessionModel :: "Session list"
  files :: "string \<rightharpoonup> string"
  logger :: "string list"

text \<open>
  The constructor. \<open>keys\<close> is the pair \<open>generateAsymmetricKeys()\<close> returned, public key
  first; \<open>configService\<close> maps a configuration key to its value, and \<open>getOrThrow\<close> throws
  on a missing key.
\<close>

definition ClientService_constructor ::
  "node \<Rightarrow> KeyObject \<times> KeyObject \<Rightarrow> (string \<rightharpoonup> string) \<Rightarrow> ClientService \<Rightarrow> error + ClientService" where
  "ClientService_constructor env keys configService this =
     (let this1 = this\<lparr>logger := logger this @ [''Generating server keypair...'']\<rparr> in
      case configService ''KEYS_PATH'' of
        None \<Rightarrow> Inl (Error ''Configuration key KEYS_PATH does not exist'')
      | Some keysPath \<Rightarrow>
          (let publicKey = fst keys;
               privateKey' = snd keys;
               this2 = this1\<lparr>privateKey := privateKey'\<rparr>;
               this3 = this2\<lparr>logger := logger this2 @ [''Exporting keys...'']\<rparr>;
               this4 = this3\<lparr>files := (files this3)(keysPath @ ''/server_public.pem'' \<mapsto> export_pem env publicKey)\<rparr>;
               this5 = this4\<lparr>files := (files this4)(keysPath @ ''/server_private.pem'' \<mapsto> export_pem env privateKey')\<rparr>
           in Inr (this5\<lparr>logger := logger this5 @ [''Keys exported to: '' @ keysPath]\<rparr>)))"

definition checkSessions :: "int \<Rightarrow> ClientService \<Rightarrow> ClientService" where
  "checkSessions now this =
     (let sessions = sessionModel this;
          sessionsToDelete = map sid (filter (\<lambda>session. expire session < now) sessions)
      in this\<lparr>logger := logger this @ [''[Sessions Management]: Pruning expired sessions...''],
              sessionModel := filter (\<lambda>session. sid session \<notin> set sessionsToDelete) sessions\<rparr>)"

text \<open>Modelled from the spec: \<open>checkNonce\<close> of \<open>src/utils/replayProtect\<close> is not among the
  sources. It is the spec's \<open>recordIfFresh\<close> with the caller's \<open>ReplayError\<close>: a nonce with
  a live entry is rejected, any other nonce is recorded with the time to live.\<close>

definition checkNonce ::
  "(string option \<rightharpoonup> int) \<Rightarrow> int \<Rightarrow> int \<Rightarrow> string option \<Rightarrow> error + (string option \<rightharpoonup> int)" where
  "checkNonce cache ttl now n =
     (case cache n of
        None \<Rightarrow> Inr (cache(n \<mapsto> now + ttl))
      | Some expiry \<Rightarrow>
          if now < expiry then Inl ReplayError
          else Inr (cache(n \<mapsto> now + ttl)))"

definition get_property :: "json \<Rightarrow> string \<Rightarrow> json" where
  "get_property v k =
     (case v of
        JObj kvs \<Rightarrow> (case map_of kvs k of None \<Rightarrow> JUndefined | Some x \<Rightarrow> x)
      | _ \<Rightarrow> JUndefined)"

definition string_of :: "json \<Rightarrow> string" where
  "string_of v = (case v of JStr s \<Rightarrow> s | _ \<Rightarrow> [])"

text \<open>Modelled from the spec: the class \<open>LoginDto\<close> of \<open>./dtos/login.dto\<close> and its
  validation decorators are not among the sources. The decrypted login payload is
  \<open>{clientId: string, password: string}\<close>; validation names every offending field.\<close>

definition validateSync :: "json \<Rightarrow> string list" where
  "validateSync loginDto =
     (case get_property loginDto ''clientId'' of JStr _ \<Rightarrow> [] | _ \<Rightarrow> [''clientId must be a string''])
     @ (case get_property loginDto ''password'' of JStr _ \<Rightarrow> [] | _ \<Rightarrow> [''password must be a string''])"

text \<open>Modelled from the spec: \<open>protectAsymmetricServer\<close> of the secure library is not among
  the sources. Sealing the response is the asymmetric seal: the data encrypted under the
  public key with padded public-key encryption, the tag computed over the ciphertext.\<close>

definition protectAsymmetricServer :: "node \<Rightarrow> string \<Rightarrow> json \<Rightarrow> KeyObject \<Rightarrow> error + ProtectedData" where
  "protectAsymmetricServer env seed v secret = protectAsymmetric env seed v secret"

text \<open>The object \<open>login\<close> recomputes the tag over: \<open>data\<close> is \<open>loginData\<close>, the value
  decryption produced.\<close>

definition micPayload :: "LoginRequest \<Rightarrow> json \<Rightarrow> json" where
  "micPayload encodedLoginDto loginData =
     JObj [(''nonce'', js_value (nonce encodedLoginDto)),
           (''data'', loginData),
           (''publicKey'', JStr (publicKey encodedLoginDto))]"

text \<open>
  \<open>login\<close> returns what the promise settles to and the service afterwards. \<open>rnd\<close> is
  \<open>crypto.randomBytes\<close>, \<open>newId\<close> the identifier the new session document gets, \<open>seed\<close>
  the randomness of the response's padding.
\<close>

definition login ::
  "node \<Rightarrow> int \<Rightarrow> (nat \<Rightarrow> string) \<Rightarrow> string \<Rightarrow> string \<Rightarrow> ClientService \<Rightarrow> LoginRequest
     \<Rightarrow> (error + ProtectedData) \<times> ClientService" where
  "login env now rnd newId seed this encodedLoginDto =
     (case checkNonce (nonceCache this) (nonceTTL this) now (nonce encodedLoginDto) of
        Inl e \<Rightarrow> (Inl e, this)
      | Inr cache \<Rightarrow>
     (let this1 = this\<lparr>nonceCache := cache\<rparr> in
      case decryptAsymmetricData env encodedLoginDto (privateKey this1) of
        Inl err \<Rightarrow> (Inl (BadRequestException [''Data decryption fault'']), this1)
      | Inr loginData \<Rightarrow>
     (case micMatch env (mic encodedLoginDto) (micPayload encodedLoginDto loginData) of
        Inl e \<Rightarrow> (Inl e, this1)
      | Inr ok \<Rightarrow>
      if \<not> ok then (Inl (BadRequestException [''Data integrity fault'']), this1)
      else
     (let errors = validateSync loginData in
      if errors \<noteq> [] then (Inl (BadRequestException errors), this1)
      else
      case clientModel this1 (string_of (get_property loginData ''clientId'')) of
        None \<Rightarrow> (Inl (NotFoundException ''Client not found''), this1)
      | Some client' \<Rightarrow>
     (case secureHash env (get_property loginData ''password'') of
        Inl e \<Rightarrow> (Inl e, this1)
      | Inr h \<Rightarrow>
      if password client' \<noteq> h then (Inl (UnauthorizedException ''Invalid credentials''), this1)
      else
     (let sessionKey' = generateSymmetricKey rnd;
          session = \<lparr>sid = newId,
                     sessionKey = base64_encode env sessionKey',
                     client = client',
                     clientKey = publicKey encodedLoginDto,
                     expire = now + 10 * 60 * 1000\<rparr>;
          this2 = this1\<lparr>sessionModel := sessionModel this1 @ [session]\<rparr>;
          responseData = JObj [(''sessionId'', JStr (sid session)),
                               (''sessionKey'', JStr (base64_encode env sessionKey'))] in
      case createPublicKey env (base64_decode env (publicKey encodedLoginDto)) of
        None \<Rightarrow> (Inl NodeError, this2)
      | Some key \<Rightarrow>
     (case protectAsymmetricServer env seed responseData key of
        Inl e \<Rightarrow> (Inl e, this2)
      | Inr protectedData \<Rightarrow>
          (Inr \<lparr>data = data protectedData, nonce = None, mic = mic protectedData\<rparr>, this2))))))))"

section \<open>What the theorems assume of the primitives\<close>

text \<open>Decoding a Base64 encoding gives the bytes back.\<close>

definition base64_ok :: "node \<Rightarrow> bool" where
  "base64_ok env \<longleftrightarrow> (\<forall>b. base64_decode env (base64_encode env b) = b)"

text \<open>With a 32-byte key and a 16-byte initialisation vector, AES-256-CBC encrypts, and
  decrypting the result under the same key and vector gives the plaintext.\<close>

definition aes_256_cbc_ok :: "node \<Rightarrow> bool" where
  "aes_256_cbc_ok env \<longleftrightarrow>
     (\<forall>k iv m. length k = 32 \<and> length iv = 16 \<longrightarrow>
        (\<exists>c. aes_256_cbc_encrypt env k iv m = Some c \<and> aes_256_cbc_decrypt env k iv c = Some m))"

text \<open>A matching key pair: what the public key encrypted, the private key decrypts.\<close>

definition keypair_ok :: "node \<Rightarrow> KeyObject \<Rightarrow> KeyObject \<Rightarrow> bool" where
  "keypair_ok env pub priv \<longleftrightarrow>
     (\<forall>seed m c. publicEncrypt env pub seed m = Some c \<longrightarrow> privateDecrypt env priv c = Some m)"

text \<open>A serializable payload: \<open>JSON.stringify\<close> gives a string, which \<open>JSON.parse\<close> reads
  back as the payload.\<close>

definition serializable :: "node \<Rightarrow> json \<Rightarrow> bool" where
  "serializable env v \<longleftrightarrow> v \<noteq> JUndefined \<and> JSON_parse env (SerializeJSONProperty v) = Some v"

text \<open>The digest does not identify two given strings.\<close>

definition no_collision :: "node \<Rightarrow> string \<Rightarrow> string \<Rightarrow> bool" where
  "no_collision env s t \<longleftrightarrow> (sha256_base64 env s = sha256_base64 env t \<longrightarrow> s = t)"

section \<open>A small instance of the primitives\<close>

text \<open>
  An instance on which the definitions evaluate: a polynomial checksum printed in decimal
  for the digest, a prefix for Base64, the key and the vector prepended for AES, the
  name of the key pair prepended for RSA (the public key of the pair \<open>x\<close> is \<open>pub:x\<close>, its
  private key \<open>key:x\<close>), and a table for \<open>JSON.parse\<close>.
\<close>

definition test_digest :: "string \<Rightarrow> string" where
  "test_digest s = digits (foldl (\<lambda>h c. (h * 31 + of_char c) mod 1000003) 7 s)"

definition alice_login :: json where
  "alice_login = JObj [(''clientId'', JStr ''alice''), (''password'', JStr ''alice12345'')]"

definition alice_guess :: json where
  "alice_guess = JObj [(''clientId'', JStr ''alice''), (''password'', JStr ''guess'')]"

definition mallory_guess :: json where
  "mallory_guess = JObj [(''clientId'', JStr ''mallory''), (''password'', JStr ''guess'')]"

definition test_parse :: "string \<Rightarrow> json option" where
  "test_parse s =
     (if s = SerializeJSONProperty alice_login then Some alice_login
      else if s = SerializeJSONProperty alice_guess then Some alice_guess
      else if s = SerializeJSONProperty mallory_guess then Some mallory_guess
      else None)"

definition test_node :: node where
  "test_node =
     \<lparr>sha256_base64 = test_digest,
      base64_encode = (\<lambda>b. ''b64:'' @ b),
      base64_decode = drop 4,
      aes_256_cbc_encrypt =
        (\<lambda>k iv m. if length k = 32 \<and> length iv = 16 then Some (k @ iv @ m) else None),
      aes_256_cbc_decrypt =
        (\<lambda>k iv c. if length k = 32 \<and> length iv = 16 \<and> take 48 c = k @ iv
                   then Some (drop 48 c) else None),
      publicEncrypt =
        (\<lambda>pub seed m. if length m \<le> 190 then Some (''rsa:'' @ drop 4 pub @ '':'' @ m) else None),
      privateDecrypt =
        (\<lambda>priv c. let pre = ''rsa:'' @ drop 4 priv @ '':'' in
                   if take (length pre) c = pre then Some (drop (length pre) c) else None),
      JSON_parse = test_parse,
      createPublicKey = (\<lambda>pem. if pem = [] then None else Some pem),
      export_pem = (\<lambda>k. ''PEM:'' @ k)\<rparr>"

definition test_rnd :: "nat \<Rightarrow> string" where
  "test_rnd n = take n ''r0r1r2r3r4r5r6r7r8r9rarbrcrdrerf''"

text \<open>A service whose one client is \<open>alice\<close>, with \<open>secureHash\<close> of her password
  \<open>alice12345\<close> stored, as the seed data stores it.\<close>

definition test_service :: ClientService where
  "test_service =
     \<lparr>privateKey = ''key:server'',
      nonceCache = Map.empty,
      nonceTTL = 300000,
      clientModel = [''alice'' \<mapsto> \<lparr>name = ''Alice'', password = ''940631''\<rparr>],
      sessionModel = [],
      files = Map.empty,
      logger = []\<rparr>"

text \<open>Envelopes on this instance: the login payload of \<open>alice\<close> sealed under a
  symmetric key, and sealed under the server's public key.\<close>

definition test_key :: KeyObject where
  "test_key = ''0123456789abcdef0123456789abcdef''"

definition sealed_login :: ProtectedData where
  \<open>sealed_login =
     \<lparr>data = ''b64:0123456789abcdef0123456789abcdefr0r1r2r3r4r5r6r7{"clientId":"alice","password":"alice12345"}'',
      nonce = Some ''b64:r0r1r2r3r4r5r6r7'',
      mic = ''953377''\<rparr>\<close>

definition sealed_asymmetric :: ProtectedData where
  \<open>sealed_asymmetric =
     \<lparr>data = ''b64:rsa:server:{"clientId":"alice","password":"alice12345"}'',
      nonce = None,
      mic = ''634552''\<rparr>\<close>

text \<open>Login requests on this instance, each tagged over \<open>{nonce, data, publicKey}\<close> with
  \<open>data\<close> the plaintext payload: \<open>alice\<close> with her password, \<open>alice\<close> with a wrong
  password, and a client the service does not know. The last request carries the tag
  over the fields as transmitted, \<open>data\<close> being the ciphertext.\<close>

definition request_alice :: LoginRequest where
  \<open>request_alice =
     \<lparr>data = ''b64:rsa:server:{"clientId":"alice","password":"alice12345"}'',
      nonce = Some ''b64:nonce-0000000001'',
      mic = ''658656'',
      publicKey = ''b64:pub:alice-laptop''\<rparr>\<close>

definition request_guess :: LoginRequest where
  \<open>request_guess =
     \<lparr>data = ''b64:rsa:server:{"clientId":"alice","password":"guess"}'',
      nonce = Some ''b64:nonce-0000000001'',
      mic = ''603520'',
      publicKey = ''b64:pub:alice-laptop''\<rparr>\<close>

definition request_mallory :: LoginRequest where
  \<open>request_mallory =
     \<lparr>data = ''b64:rsa:server:{"clientId":"mallory","password":"guess"}'',
      nonce = Some ''b64:nonce-0000000001'',
      mic = ''801710'',
      publicKey = ''b64:pub:alice-laptop''\<rparr>\<close>

definition request_transmitted_tag :: LoginRequest where
  \<open>request_transmitted_tag =
     \<lparr>data = ''b64:rsa:server:{"clientId":"alice","password":"alice12345"}'',
      nonce = Some ''b64:nonce-0000000001'',
      mic = ''810882'',
      publicKey = ''b64:pub:alice-laptop''\<rparr>\<close>

text \<open>The service after a request with that nonce arrived at instant 1000.\<close>

definition test_service_1 :: ClientService where
  "test_service_1 = test_service\<lparr>nonceCache := [Some ''b64:nonce-0000000001'' \<mapsto> 301000]\<rparr>"

text \<open>The symmetric envelope with its ciphertext altered after sealing.\<close>

definition tampered_login :: ProtectedData where
  \<open>tampered_login =
     \<lparr>data = ''b64:0123456789abcdef0123456789abcdefr0r1r2r3r4r5r6r7{"clientId":"alice","password":"guess"}'',
      nonce = Some ''b64:r0r1r2r3r4r5r6r7'',
      mic = ''953377''\<rparr>\<close>

text \<open>What the successful login of \<open>alice\<close> at instant 1000 returns, stores and leaves.\<close>

definition test_response :: ProtectedData where
  \<open>test_response =
     \<lparr>data = ''b64:rsa:alice-laptop:{"sessionId":"session-1","sessionKey":"b64:r0r1r2r3r4r5r6r7r8r9rarbrcrdrerf"}'',
      nonce = None,
      mic = ''953937''\<rparr>\<close>

definition test_session :: Session where
  "test_session =
     \<lparr>sid = ''session-1'',
      sessionKey = ''b64:r0r1r2r3r4r5r6r7r8r9rarbrcrdrerf'',
      client = \<lparr>name = ''Alice'', password = ''940631''\<rparr>,
      clientKey = ''b64:pub:alice-laptop'',
      expire = 601000\<rparr>"

definition test_service_2 :: ClientService where
  "test_service_2 = test_service_1\<lparr>sessionModel := [test_session]\<rparr>"

text \<open>The service object before and after its constructor ran with \<open>KEYS_PATH\<close> set to
  \<open>/srv/keys\<close> and the key pair \<open>server\<close> generated.\<close>

definition test_blank :: ClientService where
  "test_blank = test_service\<lparr>privateKey := []\<rparr>"

definition test_started :: ClientService where
  "test_started =
     test_service
       \<lparr>files := [''/srv/keys/server_public.pem'' \<mapsto> ''PEM:pub:server'',
                  ''/srv/keys/server_private.pem'' \<mapsto> ''PEM:key:server''],
        logger := [''Generating server keypair...'', ''Exporting keys...'',
                   ''Keys exported to: /srv/keys'']\<rparr>"

section \<open>The secure library: tags and round trips\<close>

lemma secureHash_JStr: "secureHash env (JStr s) = Inr (sha256_base64 env (QuoteJSONString s))"
  by (simp add: secureHash_def JSON_stringify_def)

lemma createMIC_JObj:
  "createMIC env (JObj kvs) = Inr (sha256_base64 env (QuoteJSONString (SerializeJSONProperty (JObj kvs))))"
  by (simp add: createMIC_def secureHash_def JSON_stringify_def js_value_def)

lemma micMatch_JObj:
  "micMatch env m (JObj kvs) = Inr (createMIC env (JObj kvs) = Inr m)"
  by (simp add: micMatch_def createMIC_JObj)

lemma check_eq:
  "check env p = Inr (createMIC env (CipherResult_json \<lparr>data = data p, nonce = nonce p\<rparr>) = Inr (mic p))"
  by (simp add: check_def CipherResult_json_def micMatch_JObj)

lemma protect_eq:
  assumes "v \<noteq> JUndefined"
    and "aes_256_cbc_encrypt env k (rnd 16) (SerializeJSONProperty v) = Some c"
  shows "\<exists>m. createMIC env (CipherResult_json
                 \<lparr>data = base64_encode env c, nonce = Some (base64_encode env (rnd 16))\<rparr>) = Inr m
           \<and> protect env rnd v k =
               Inr \<lparr>data = base64_encode env c, nonce = Some (base64_encode env (rnd 16)), mic = m\<rparr>"
  using assms
  by (simp add: protect_def cipherData_def JSON_stringify_def CipherResult_json_def createMIC_JObj)

text \<open>C10. For a payload that serializes (it is not \<open>undefined\<close>) and a key under which
  the cipher encrypts, \<open>protect\<close> returns an envelope; and every envelope \<open>protect\<close>
  returns passes \<open>check\<close>, whatever the payload, the key and the nonce. \<open>check\<close> takes the
  envelope alone, no key.\<close>

theorem check_protect:
  "(v \<noteq> JUndefined \<and> aes_256_cbc_encrypt env k (rnd 16) (SerializeJSONProperty v) \<noteq> None
      \<longrightarrow> (\<exists>p. protect env rnd v k = Inr p))
   \<and> (\<forall>p. protect env rnd v k = Inr p \<longrightarrow> check env p = Inr True)"
proof (intro conjI impI allI)
  assume "v \<noteq> JUndefined \<and> aes_256_cbc_encrypt env k (rnd 16) (SerializeJSONProperty v) \<noteq> None"
  then obtain c where "v \<noteq> JUndefined"
    and "aes_256_cbc_encrypt env k (rnd 16) (SerializeJSONProperty v) = Some c"
    by auto
  then have "\<exists>m. createMIC env (CipherResult_json
                 \<lparr>data = base64_encode env c, nonce = Some (base64_encode env (rnd 16))\<rparr>) = Inr m
           \<and> protect env rnd v k =
               Inr \<lparr>data = base64_encode env c, nonce = Some (base64_encode env (rnd 16)), mic = m\<rparr>"
    by (rule protect_eq)
  then show "\<exists>p. protect env rnd v k = Inr p"
    by blast
next
  fix p
  assume "protect env rnd v k = Inr p"
  then show "check env p = Inr True"
    by (auto simp: protect_def check_eq CipherResult_json_def split: sum.splits)
qed

text \<open>C7. Symmetric round trip: for a serializable payload and a 32-byte (256-bit) key,
  \<open>protect\<close> returns an envelope, and \<open>unprotect\<close> of that envelope under the same key
  returns the payload. (\<open>rnd 16\<close> is the 16 bytes \<open>randomBytes(16)\<close> returned.)\<close>

theorem unprotect_protect:
  assumes b64: "base64_ok env" and aes: "aes_256_cbc_ok env" and iv: "length (rnd 16) = 16"
    and ser: "serializable env v" and key: "length k = 32"
  shows "\<exists>p. protect env rnd v k = Inr p \<and> unprotect env p k = Inr v"
proof -
  from aes key iv obtain c where
    enc: "aes_256_cbc_encrypt env k (rnd 16) (SerializeJSONProperty v) = Some c" and
    dec: "aes_256_cbc_decrypt env k (rnd 16) c = Some (SerializeJSONProperty v)"
    unfolding aes_256_cbc_ok_def by blast
  from ser have v: "v \<noteq> JUndefined" and parse: "JSON_parse env (SerializeJSONProperty v) = Some v"
    by (simp_all add: serializable_def)
  from b64 have un64: "\<And>b. base64_decode env (base64_encode env b) = b"
    by (simp add: base64_ok_def)
  from v enc have "\<exists>m. createMIC env (CipherResult_json
                 \<lparr>data = base64_encode env c, nonce = Some (base64_encode env (rnd 16))\<rparr>) = Inr m
           \<and> protect env rnd v k =
               Inr \<lparr>data = base64_encode env c, nonce = Some (base64_encode env (rnd 16)), mic = m\<rparr>"
    by (rule protect_eq)
  then obtain m where
    m: "createMIC env (CipherResult_json
          \<lparr>data = base64_encode env c, nonce = Some (base64_encode env (rnd 16))\<rparr>) = Inr m" and
    p: "protect env rnd v k =
          Inr \<lparr>data = base64_encode env c, nonce = Some (base64_encode env (rnd 16)), mic = m\<rparr>"
    by blast
  have "unprotect env
          \<lparr>data = base64_encode env c, nonce = Some (base64_encode env (rnd 16)), mic = m\<rparr> k = Inr v"
    by (simp add: unprotect_def check_eq m decipherData_def un64 dec parse)
  with p show ?thesis by simp
qed

text \<open>C8. \<open>unprotect\<close> fails closed. When the recomputed tag differs from \<open>mic\<close>, the
  result is the error \<open>Failed to decipher: compromised data!\<close> whatever the decryption and
  parsing primitives are, so neither is consulted. And whenever a value is returned, the
  tag matched and the value is the parse of the whole decrypted plaintext: every other
  outcome is an error, never a part of the plaintext.\<close>

theorem unprotect_fails_closed:
  "(check env p = Inr False \<longrightarrow>
      (\<forall>dec parse. unprotect (env\<lparr>aes_256_cbc_decrypt := dec, JSON_parse := parse\<rparr>) p k
          = Inl (Error ''Failed to decipher: compromised data!'')))
   \<and> (\<forall>v. unprotect env p k = Inr v \<longrightarrow>
        check env p = Inr True \<and>
        (\<exists>n decrypted. nonce p = Some n
           \<and> aes_256_cbc_decrypt env k (base64_decode env n) (base64_decode env (data p)) = Some decrypted
           \<and> JSON_parse env decrypted = Some v))"
  by (auto simp: unprotect_def check_eq createMIC_JObj CipherResult_json_def decipherData_def
           split: sum.splits option.splits if_splits)

lemma QuoteJSONString_Quote_neq_brace:
  "QuoteJSONString (QuoteJSONString s) \<noteq> QuoteJSONString (CHR ''{'' # t)"
  by (simp add: QuoteJSONString_def escape_def)

lemma protectAsymmetric_eq:
  assumes "protectAsymmetric env seed v pub = Inr p"
  shows "data p \<noteq> [] \<and> nonce p = None
       \<and> mic p = sha256_base64 env (QuoteJSONString (QuoteJSONString (data p)))
       \<and> encryptAsymmetricData env seed v pub = Inr (data p)"
  using assms
  by (auto simp: protectAsymmetric_def secureHash_def JSON_stringify_def js_value_def
           split: sum.splits if_splits)

text \<open>The encryption itself is undone by the decryption, for a matching key pair.\<close>

lemma decryptAsymmetricData_protectAsymmetric:
  assumes "base64_ok env" and "keypair_ok env pub priv" and "serializable env v"
    and "protectAsymmetric env seed v pub = Inr p"
  shows "decryptAsymmetricData env p priv = Inr v"
proof -
  from assms(4) have "encryptAsymmetricData env seed v pub = Inr (data p)"
    by (simp add: protectAsymmetric_eq)
  then obtain c where c: "publicEncrypt env pub seed (SerializeJSONProperty v) = Some c"
    and d: "data p = base64_encode env c"
    by (auto simp: encryptAsymmetricData_def JSON_stringify_def split: option.splits if_splits)
  from assms(2) c have "privateDecrypt env priv c = Some (SerializeJSONProperty v)"
    by (simp add: keypair_ok_def)
  with assms(1,3) d show ?thesis
    by (simp add: decryptAsymmetricData_def base64_ok_def serializable_def)
qed

text \<open>C4. The asymmetric round trip fails. \<open>protectAsymmetric\<close> tags the ciphertext string,
  \<open>check\<close> recomputes the tag over the object \<open>{data, nonce}\<close>; the two serializations
  differ for every ciphertext and every nonce, absent or added by the caller. Unless the
  digest collides on them, \<open>unprotectAsymmetric\<close> rejects every envelope that
  \<open>protectAsymmetric\<close> returned, with \<open>Failed to decipher: compromised data!\<close>.\<close>

theorem unprotectAsymmetric_protectAsymmetric_fails:
  assumes "protectAsymmetric env seed v pub = Inr p"
    and "no_collision env (QuoteJSONString (QuoteJSONString (data p)))
           (QuoteJSONString (SerializeJSONProperty (CipherResult_json \<lparr>data = data p, nonce = n\<rparr>)))"
  shows "unprotectAsymmetric env (p\<lparr>nonce := n\<rparr>) priv
           = Inl (Error ''Failed to decipher: compromised data!'')"
proof -
  from assms(1) have m: "mic p = sha256_base64 env (QuoteJSONString (QuoteJSONString (data p)))"
    by (simp add: protectAsymmetric_eq)
  have "SerializeJSONProperty (CipherResult_json \<lparr>data = data p, nonce = n\<rparr>)
          = CHR ''{'' # tl (SerializeJSONProperty (CipherResult_json \<lparr>data = data p, nonce = n\<rparr>))"
    by (simp add: CipherResult_json_def)
  then have "QuoteJSONString (QuoteJSONString (data p))
          \<noteq> QuoteJSONString (SerializeJSONProperty (CipherResult_json \<lparr>data = data p, nonce = n\<rparr>))"
    using QuoteJSONString_Quote_neq_brace by metis
  with assms(2) m have "createMIC env (CipherResult_json \<lparr>data = data p, nonce = n\<rparr>) \<noteq> Inr (mic p)"
    by (auto simp: no_collision_def CipherResult_json_def createMIC_JObj)
  then show ?thesis
    by (simp add: unprotectAsymmetric_def check_eq)
qed

section \<open>The client service: login, sessions, keys\<close>

lemma micMatch_micPayload:
  "micMatch env m (micPayload r v) = Inr (createMIC env (micPayload r v) = Inr m)"
  by (simp add: micPayload_def micMatch_JObj)

lemma validateSync_no_fault: "validateSync v \<noteq> [''Data integrity fault'']"
  by (auto simp: validateSync_def split: json.splits)

lemma protectAsymmetric_error:
  "protectAsymmetric env seed v k = Inl e \<Longrightarrow> e = NodeError \<or> e = Error ''Failed to cipher data.''"
  by (auto simp: protectAsymmetric_def encryptAsymmetricData_def secureHash_def
           split: sum.splits option.splits if_splits)

lemma secureHash_error: "secureHash env v = Inl e \<Longrightarrow> e = NodeError"
  by (auto simp: secureHash_def split: option.splits)

text \<open>C2, as the code has it. Once the nonce was accepted and decryption returned
  \<open>loginData\<close>, \<open>login\<close> recomputes the tag over \<open>{nonce, data: loginData, publicKey}\<close>: the
  transmitted nonce and claimed public key, and the decrypted payload in place of the
  ciphertext. It fails with the bad request \<open>Data integrity fault\<close> exactly when that tag
  differs from the transmitted \<open>mic\<close>.\<close>

theorem login_integrity_tag:
  assumes "checkNonce (nonceCache this) (nonceTTL this) now (nonce r) = Inr cache"
    and "decryptAsymmetricData env r (privateKey this) = Inr loginData"
  shows "fst (login env now rnd newId seed this r) = Inl (BadRequestException [''Data integrity fault''])
         \<longleftrightarrow> createMIC env (micPayload r loginData) \<noteq> Inr (mic r)"
  using assms validateSync_no_fault [of loginData]
  by (auto simp: login_def Let_def micMatch_micPayload protectAsymmetricServer_def
           split: sum.splits option.splits
           dest: protectAsymmetric_error secureHash_error)

text \<open>C3, as the code has it. With the earlier stages passed and a payload whose
  \<open>clientId\<close> and \<open>password\<close> are strings, an unknown client id ends \<open>login\<close> with
  \<open>NotFoundException("Client not found")\<close>, and a known client whose stored hash is not
  \<open>secureHash(password)\<close> ends it with \<open>UnauthorizedException("Invalid credentials")\<close>:
  two different errors. Either way only the nonce cache has changed.\<close>

theorem login_credential_failures:
  assumes "checkNonce (nonceCache this) (nonceTTL this) now (nonce r) = Inr cache"
    and "decryptAsymmetricData env r (privateKey this) = Inr loginData"
    and "createMIC env (micPayload r loginData) = Inr (mic r)"
    and "get_property loginData ''clientId'' = JStr cid"
    and "get_property loginData ''password'' = JStr pw"
  shows "(clientModel this cid = None \<longrightarrow>
            login env now rnd newId seed this r
              = (Inl (NotFoundException ''Client not found''), this\<lparr>nonceCache := cache\<rparr>))
       \<and> (\<forall>c. clientModel this cid = Some c \<and> secureHash env (JStr pw) \<noteq> Inr (password c) \<longrightarrow>
            login env now rnd newId seed this r
              = (Inl (UnauthorizedException ''Invalid credentials''), this\<lparr>nonceCache := cache\<rparr>))"
  using assms
  by (auto simp: login_def Let_def micMatch_micPayload validateSync_def string_of_def secureHash_JStr)

lemma login_replayed:
  assumes "nonceCache this (nonce r) = Some e" and "now < e"
  shows "login env now rnd newId seed this r = (Inl ReplayError, this)"
  using assms by (simp add: login_def checkNonce_def)

lemma login_records_nonce:
  assumes "0 < nonceTTL this" and "login env now rnd newId seed this r = (res, this')"
  shows "\<exists>e. nonceCache this' (nonce r) = Some e \<and> now < e
           \<and> (res \<noteq> Inl ReplayError \<longrightarrow> e = now + nonceTTL this)"
  using assms
  by (auto simp: login_def Let_def checkNonce_def split: sum.splits option.splits if_splits)

text \<open>C5. Whatever a \<open>login\<close> returned, and on whatever stage it failed, the nonce of
  its request has a live entry in the cache afterwards (expiring one time to live after
  the call when the nonce was fresh). Until that entry expires every further \<open>login\<close>
  with the same request fails with \<open>ReplayError\<close> and changes nothing, whatever the
  primitives are: decryption is not reached.\<close>

theorem login_replay:
  assumes "0 < nonceTTL this" and "login env now rnd newId seed this r = (res, this')"
  shows "\<exists>e. nonceCache this' (nonce r) = Some e \<and> now < e
           \<and> (res \<noteq> Inl ReplayError \<longrightarrow> e = now + nonceTTL this)
           \<and> (\<forall>env' now' rnd' newId' seed'. now' < e \<longrightarrow>
                 login env' now' rnd' newId' seed' this' r = (Inl ReplayError, this'))"
proof -
  from login_records_nonce [OF assms] obtain e where
    e: "nonceCache this' (nonce r) = Some e" "now < e" "res \<noteq> Inl ReplayError \<longrightarrow> e = now + nonceTTL this"
    by blast
  then show ?thesis
    by (auto simp: login_replayed)
qed

lemma login_session_created:
  assumes "login env now rnd newId seed this r = (res, this')"
    and "sessionModel this' \<noteq> sessionModel this \<or> (\<exists>p. res = Inr p)"
  shows "\<exists>cache loginData c.
            checkNonce (nonceCache this) (nonceTTL this) now (nonce r) = Inr cache
          \<and> decryptAsymmetricData env r (privateKey this) = Inr loginData
          \<and> micMatch env (mic r) (micPayload r loginData) = Inr True
          \<and> validateSync loginData = []
          \<and> clientModel this (string_of (get_property loginData ''clientId'')) = Some c
          \<and> secureHash env (get_property loginData ''password'') = Inr (password c)
          \<and> sessionModel this' = sessionModel this @
               [\<lparr>sid = newId, sessionKey = base64_encode env (generateSymmetricKey rnd),
                 client = c, clientKey = publicKey r, expire = now + 10 * 60 * 1000\<rparr>]"
  using assms
  by (auto simp: login_def Let_def split: sum.splits option.splits if_splits)

lemma login_failure_no_session:
  assumes "login env now rnd newId seed this r = (res, this')"
    and "res = Inl ReplayError \<or> (\<exists>m. res = Inl (BadRequestException m))
           \<or> (\<exists>m. res = Inl (NotFoundException m)) \<or> (\<exists>m. res = Inl (UnauthorizedException m))"
  shows "sessionModel this' = sessionModel this"
  using assms
  by (auto simp: login_def Let_def protectAsymmetricServer_def
           split: sum.splits option.splits if_splits
           dest: protectAsymmetric_error secureHash_error)

text \<open>C6. A \<open>login\<close> that fails on replay, decryption, integrity, validation or credentials
  (\<open>ReplayError\<close>, a bad request, not found, unauthorized) leaves the stored sessions as
  they were, and returns an error, no envelope. And whenever a session was stored or an
  envelope returned, every stage up to the credentials check had succeeded, and exactly
  one session was appended.\<close>

theorem login_atomic:
  assumes "login env now rnd newId seed this r = (res, this')"
  shows "((res = Inl ReplayError \<or> (\<exists>m. res = Inl (BadRequestException m))
            \<or> (\<exists>m. res = Inl (NotFoundException m)) \<or> (\<exists>m. res = Inl (UnauthorizedException m)))
          \<longrightarrow> sessionModel this' = sessionModel this)
       \<and> ((sessionModel this' \<noteq> sessionModel this \<or> (\<exists>p. res = Inr p)) \<longrightarrow>
            (\<exists>cache loginData c.
                checkNonce (nonceCache this) (nonceTTL this) now (nonce r) = Inr cache
              \<and> decryptAsymmetricData env r (privateKey this) = Inr loginData
              \<and> micMatch env (mic r) (micPayload r loginData) = Inr True
              \<and> validateSync loginData = []
              \<and> clientModel this (string_of (get_property loginData ''clientId'')) = Some c
              \<and> secureHash env (get_property loginData ''password'') = Inr (password c)
              \<and> sessionModel this' = sessionModel this @
                   [\<lparr>sid = newId, sessionKey = base64_encode env (generateSymmetricKey rnd),
                     client = c, clientKey = publicKey r, expire = now + 10 * 60 * 1000\<rparr>]))"
  using login_failure_no_session [OF assms] login_session_created [OF assms]
  by blast

text \<open>The session is stored before the response is sealed: when sealing fails (here, the
  claimed public key does not parse), \<open>login\<close> fails with the session already stored.\<close>

lemma login_seal_failure:
  assumes "checkNonce (nonceCache this) (nonceTTL this) now (nonce r) = Inr cache"
    and "decryptAsymmetricData env r (privateKey this) = Inr loginData"
    and "micMatch env (mic r) (micPayload r loginData) = Inr True"
    and "validateSync loginData = []"
    and "clientModel this (string_of (get_property loginData ''clientId'')) = Some c"
    and "secureHash env (get_property loginData ''password'') = Inr (password c)"
    and "createPublicKey env (base64_decode env (publicKey r)) = None"
  shows "login env now rnd newId seed this r =
           (Inl NodeError,
            this\<lparr>nonceCache := cache,
                 sessionModel := sessionModel this @
                   [\<lparr>sid = newId, sessionKey = base64_encode env (generateSymmetricKey rnd),
                     client = c, clientKey = publicKey r, expire = now + 10 * 60 * 1000\<rparr>]\<rparr>)"
  using assms by (simp add: login_def Let_def)

lemma checkSessions_filter:
  assumes "distinct (map sid (sessionModel this))"
  shows "sessionModel (checkSessions now this) = filter (\<lambda>s. \<not> expire s < now) (sessionModel this)"
proof -
  have "\<And>s. s \<in> set (sessionModel this) \<Longrightarrow>
          (sid s \<notin> sid ` {x \<in> set (sessionModel this). expire x < now}) = (\<not> expire s < now)"
    using assms by (auto simp: distinct_map inj_on_def)
  then show ?thesis
    by (auto simp: checkSessions_def Let_def intro!: filter_cong)
qed

lemma checkSessions_expired:
  "s \<in> set (sessionModel this) \<Longrightarrow> expire s < now \<Longrightarrow> s \<notin> set (sessionModel (checkSessions now this))"
  by (auto simp: checkSessions_def Let_def)

text \<open>C9. A successful \<open>login\<close> at instant \<open>T\<close> appends one session. Its key is what
  \<open>generateSymmetricKey\<close> produced, and that is \<open>rnd 32\<close>: the 32 bytes (256 bits) that
  \<open>randomBytes(32)\<close> returned in that call, drawn anew for this session and stored
  Base64-encoded as \<open>base64_encode env (rnd 32)\<close>. Its
  \<open>expire\<close> is \<open>T\<close> plus ten minutes (600000 ms); \<open>login\<close> only appends and
  \<open>checkSessions\<close> only removes, so it stays as set. \<open>checkSessions\<close> at instant \<open>now\<close>
  keeps exactly the stored sessions whose \<open>expire\<close> is not before \<open>now\<close> (session
  identifiers being unique, as in the collection).
  So a prune at any instant up to \<open>T\<close> plus ten minutes, nine minutes included, keeps the
  session, and a prune at any later instant leaves it absent.\<close>

theorem session_lifecycle:
  assumes "login env T rnd newId seed this r = (Inr p, this')"
    and "length (rnd 32) = 32"
  shows "\<exists>s. sessionModel this' = sessionModel this @ [s]
           \<and> generateSymmetricKey rnd = rnd 32 \<and> length (rnd 32) = 32
           \<and> sessionKey s = base64_encode env (rnd 32)
           \<and> expire s = T + 600000
           \<and> (\<forall>now st. distinct (map sid (sessionModel st)) \<longrightarrow>
                 sessionModel (checkSessions now st) = filter (\<lambda>x. \<not> expire x < now) (sessionModel st))
           \<and> (\<forall>now st. distinct (map sid (sessionModel st)) \<and> s \<in> set (sessionModel st)
                          \<and> now \<le> T + 600000 \<longrightarrow>
                 s \<in> set (sessionModel (checkSessions now st)))
           \<and> (\<forall>now st. T + 600000 < now \<longrightarrow> s \<notin> set (sessionModel (checkSessions now st)))"
proof -
  from login_session_created [OF assms(1)] obtain c where
    created: "sessionModel this' = sessionModel this @
          [\<lparr>sid = newId, sessionKey = base64_encode env (generateSymmetricKey rnd),
            client = c, clientKey = publicKey r, expire = T + 10 * 60 * 1000\<rparr>]"
    by auto
  let ?s = "\<lparr>sid = newId, sessionKey = base64_encode env (generateSymmetricKey rnd),
            client = c, clientKey = publicKey r, expire = T + 10 * 60 * 1000\<rparr>"
  have exp: "expire ?s = T + 600000"
    by simp
  have kept: "?s \<in> set (sessionModel (checkSessions now st))"
    if "distinct (map sid (sessionModel st)) \<and> ?s \<in> set (sessionModel st) \<and> now \<le> T + 600000"
    for now st
    using that by (simp add: checkSessions_filter)
  have gone: "?s \<notin> set (sessionModel (checkSessions now st))" if "T + 600000 < now" for now st
  proof (cases "?s \<in> set (sessionModel st)")
    case True
    then show ?thesis using that checkSessions_expired [of ?s st now] by simp
  next
    case False
    then show ?thesis by (auto simp: checkSessions_def Let_def)
  qed
  show ?thesis
  proof (rule exI [of _ ?s], intro conjI allI impI)
    show "sessionModel this' = sessionModel this @ [?s]" by (fact created)
    show "generateSymmetricKey rnd = rnd 32" by (simp add: generateSymmetricKey_def)
    show "length (rnd 32) = 32" by (fact assms(2))
    show "sessionKey ?s = base64_encode env (rnd 32)" by (simp add: generateSymmetricKey_def)
    show "expire ?s = T + 600000" by (fact exp)
    show "sessionModel (checkSessions now st) = filter (\<lambda>x. \<not> expire x < now) (sessionModel st)"
      if "distinct (map sid (sessionModel st))" for now st
      using that by (rule checkSessions_filter)
    show "?s \<in> set (sessionModel (checkSessions now st))"
      if "distinct (map sid (sessionModel st)) \<and> ?s \<in> set (sessionModel st) \<and> now \<le> T + 600000"
      for now st
      using that by (rule kept)
    show "?s \<notin> set (sessionModel (checkSessions now st))" if "T + 600000 < now" for now st
      using that by (rule gone)
  qed
qed

text \<open>C1, as the code has it. With \<open>KEYS_PATH\<close> configured the constructor succeeds; it
  keeps the private key in the service's \<open>privateKey\<close> field and writes two files under
  \<open>KEYS_PATH\<close>: the export of the public key to \<open>server_public.pem\<close> and the export of the
  private key to \<open>server_private.pem\<close>. No other file is written, and the three log lines
  hold no key material.\<close>

theorem constructor_exports_keys:
  assumes "configService ''KEYS_PATH'' = Some keysPath"
  shows "\<exists>this'. ClientService_constructor env (pub, priv) configService this = Inr this'
           \<and> privateKey this' = priv
           \<and> files this' = (files this)(keysPath @ ''/server_public.pem'' \<mapsto> export_pem env pub,
                                        keysPath @ ''/server_private.pem'' \<mapsto> export_pem env priv)
           \<and> logger this' = logger this @
               [''Generating server keypair...'', ''Exporting keys...'', ''Keys exported to: '' @ keysPath]"
  using assms by (simp add: ClientService_constructor_def Let_def)

section \<open>The theorems on the small instance\<close>

text \<open>Each theorem above is applied once to the instance, its hypotheses evaluated
  there; where the code departs from the specification, the instance shows the run.\<close>

lemmas test_defs = test_node_def test_digest_def test_parse_def alice_login_def alice_guess_def
  mallory_guess_def test_rnd_def test_service_def test_key_def

lemmas json_defs = JSON_stringify_def js_value_def QuoteJSONString_def escape_def digits.simps

lemmas lib_defs = protect_def cipherData_def createMIC_def secureHash_def CipherResult_json_def
  protectAsymmetric_def encryptAsymmetricData_def decryptAsymmetricData_def check_def micMatch_def
  unprotect_def unprotectAsymmetric_def decipherData_def

lemmas login_defs = login_def Let_def checkNonce_def micPayload_def validateSync_def
  get_property_def string_of_def protectAsymmetricServer_def generateSymmetricKey_def

lemma protect_test: "protect test_node test_rnd alice_login test_key = Inr sealed_login"
  by (simp add: lib_defs test_defs json_defs sealed_login_def)

lemma unprotect_test: "unprotect test_node sealed_login test_key = Inr alice_login"
  by (simp add: lib_defs test_defs json_defs sealed_login_def)

lemma check_tampered: "check test_node tampered_login = Inr False"
  by (simp add: lib_defs test_defs json_defs tampered_login_def)

lemma protectAsymmetric_test:
  "protectAsymmetric test_node [] alice_login ''pub:server'' = Inr sealed_asymmetric"
  by (simp add: lib_defs test_defs json_defs sealed_asymmetric_def)

lemma login_alice:
  "login test_node 1000 test_rnd ''session-1'' [] test_service request_alice
     = (Inr test_response, test_service_2)"
  by (simp add: login_defs lib_defs test_defs json_defs request_alice_def test_response_def
        test_service_1_def test_service_2_def test_session_def)

lemma login_guess:
  "login test_node 1000 test_rnd ''session-1'' [] test_service request_guess
     = (Inl (UnauthorizedException ''Invalid credentials''), test_service_1)"
  by (simp add: login_defs lib_defs test_defs json_defs request_guess_def test_service_1_def)

lemma login_mallory:
  "login test_node 1000 test_rnd ''session-1'' [] test_service request_mallory
     = (Inl (NotFoundException ''Client not found''), test_service_1)"
  by (simp add: login_defs lib_defs test_defs json_defs request_mallory_def test_service_1_def)

lemma login_transmitted_tag:
  "login test_node 1000 test_rnd ''session-1'' [] test_service request_transmitted_tag
     = (Inl (BadRequestException [''Data integrity fault'']), test_service_1)"
  by (simp add: login_defs lib_defs test_defs json_defs request_transmitted_tag_def test_service_1_def)

theorem check_protect_witness:
  "alice_login \<noteq> JUndefined
   \<and> aes_256_cbc_encrypt test_node test_key (test_rnd 16) (SerializeJSONProperty alice_login) \<noteq> None
   \<and> protect test_node test_rnd alice_login test_key = Inr sealed_login
   \<and> check test_node sealed_login = Inr True"
proof -
  have v: "alice_login \<noteq> JUndefined"
    by (simp add: alice_login_def)
  have enc: "aes_256_cbc_encrypt test_node test_key (test_rnd 16) (SerializeJSONProperty alice_login) \<noteq> None"
    by (simp add: test_node_def test_key_def test_rnd_def)
  from check_protect [of alice_login test_node test_key test_rnd] protect_test
  have "check test_node sealed_login = Inr True"
    by blast
  with v enc protect_test show ?thesis
    by simp
qed

theorem unprotect_protect_witness:
  "base64_ok test_node \<and> aes_256_cbc_ok test_node \<and> length (test_rnd 16) = 16
   \<and> serializable test_node alice_login \<and> length test_key = 32
   \<and> protect test_node test_rnd alice_login test_key = Inr sealed_login
   \<and> unprotect test_node sealed_login test_key = Inr alice_login"
proof -
  have b64: "base64_ok test_node"
    by (simp add: base64_ok_def test_node_def)
  have aes: "aes_256_cbc_ok test_node"
    by (simp add: aes_256_cbc_ok_def test_node_def)
  have iv: "length (test_rnd 16) = 16"
    by (simp add: test_rnd_def)
  have ser: "serializable test_node alice_login"
    by (simp add: serializable_def test_defs json_defs)
  have key: "length test_key = 32"
    by (simp add: test_key_def)
  from unprotect_protect [where env = test_node and rnd = test_rnd and v = alice_login and k = test_key]
    b64 aes iv ser key protect_test
  have "unprotect test_node sealed_login test_key = Inr alice_login"
    by auto
  with b64 aes iv ser key protect_test show ?thesis
    by simp
qed

theorem unprotect_fails_closed_witness:
  "check test_node tampered_login = Inr False
   \<and> unprotect test_node tampered_login test_key = Inl (Error ''Failed to decipher: compromised data!'')
   \<and> unprotect test_node sealed_login test_key = Inr alice_login
   \<and> check test_node sealed_login = Inr True"
proof -
  from unprotect_fails_closed [of test_node tampered_login test_key] check_tampered
  have "unprotect (test_node\<lparr>aes_256_cbc_decrypt := aes_256_cbc_decrypt test_node,
                              JSON_parse := JSON_parse test_node\<rparr>) tampered_login test_key
          = Inl (Error ''Failed to decipher: compromised data!'')"
    by blast
  then have bad: "unprotect test_node tampered_login test_key
          = Inl (Error ''Failed to decipher: compromised data!'')"
    by simp
  from unprotect_fails_closed [of test_node sealed_login test_key] unprotect_test
  have "check test_node sealed_login = Inr True"
    by blast
  with check_tampered bad unprotect_test show ?thesis
    by simp
qed

theorem unprotectAsymmetric_protectAsymmetric_fails_witness:
  "protectAsymmetric test_node [] alice_login ''pub:server'' = Inr sealed_asymmetric
   \<and> no_collision test_node (QuoteJSONString (QuoteJSONString (data sealed_asymmetric)))
        (QuoteJSONString (SerializeJSONProperty
           (CipherResult_json \<lparr>data = data sealed_asymmetric, nonce = None\<rparr>)))
   \<and> decryptAsymmetricData test_node sealed_asymmetric ''key:server'' = Inr alice_login
   \<and> unprotectAsymmetric test_node sealed_asymmetric ''key:server''
        = Inl (Error ''Failed to decipher: compromised data!'')"
proof -
  have nc: "no_collision test_node (QuoteJSONString (QuoteJSONString (data sealed_asymmetric)))
        (QuoteJSONString (SerializeJSONProperty
           (CipherResult_json \<lparr>data = data sealed_asymmetric, nonce = None\<rparr>)))"
    by (simp add: no_collision_def lib_defs test_defs json_defs sealed_asymmetric_def)
  have dec: "decryptAsymmetricData test_node sealed_asymmetric ''key:server'' = Inr alice_login"
    by (simp add: lib_defs test_defs json_defs sealed_asymmetric_def)
  have same: "sealed_asymmetric\<lparr>nonce := None\<rparr> = sealed_asymmetric"
    by (simp add: sealed_asymmetric_def)
  from unprotectAsymmetric_protectAsymmetric_fails [OF protectAsymmetric_test nc, of "''key:server''"]
  have "unprotectAsymmetric test_node sealed_asymmetric ''key:server''
        = Inl (Error ''Failed to decipher: compromised data!'')"
    by (simp add: same)
  with protectAsymmetric_test nc dec show ?thesis
    by simp
qed

lemma constructor_test:
  "ClientService_constructor test_node (''pub:server'', ''key:server'') [''KEYS_PATH'' \<mapsto> ''/srv/keys'']
     test_blank = Inr test_started"
  by (simp add: ClientService_constructor_def Let_def test_blank_def test_started_def test_service_def
        test_node_def)

theorem private_key_written_counterexample:
  "ClientService_constructor test_node (''pub:server'', ''key:server'') [''KEYS_PATH'' \<mapsto> ''/srv/keys'']
     test_blank = Inr test_started
   \<and> files test_blank ''/srv/keys/server_private.pem'' = None
   \<and> files test_started ''/srv/keys/server_private.pem'' = Some (export_pem test_node ''key:server'')"
  using constructor_test
  by (simp add: test_blank_def test_started_def test_service_def test_node_def)

theorem constructor_exports_keys_witness:
  "[''KEYS_PATH'' \<mapsto> ''/srv/keys''] ''KEYS_PATH'' = Some ''/srv/keys''
   \<and> ClientService_constructor test_node (''pub:server'', ''key:server'') [''KEYS_PATH'' \<mapsto> ''/srv/keys'']
         test_blank = Inr test_started
   \<and> privateKey test_started = ''key:server''
   \<and> files test_started = (files test_blank)
         (''/srv/keys/server_public.pem'' \<mapsto> export_pem test_node ''pub:server'',
          ''/srv/keys/server_private.pem'' \<mapsto> export_pem test_node ''key:server'')
   \<and> logger test_started = logger test_blank @
         [''Generating server keypair...'', ''Exporting keys...'', ''Keys exported to: /srv/keys'']"
proof -
  have cfg: "[''KEYS_PATH'' \<mapsto> ''/srv/keys''] ''KEYS_PATH'' = Some ''/srv/keys''"
    by simp
  from constructor_exports_keys
      [where configService = "[''KEYS_PATH'' \<mapsto> ''/srv/keys'']" and keysPath = "''/srv/keys''"
         and env = test_node and pub = "''pub:server''" and priv = "''key:server''" and this = test_blank]
    constructor_test cfg
  show ?thesis
    by auto
qed

theorem login_transmitted_tag_counterexample:
  \<open>createMIC test_node
       (JObj [(''nonce'', JStr ''b64:nonce-0000000001''),
              (''data'', JStr ''b64:rsa:server:{"clientId":"alice","password":"alice12345"}''),
              (''publicKey'', JStr ''b64:pub:alice-laptop'')])
     = Inr (mic request_transmitted_tag)
   \<and> data request_transmitted_tag = ''b64:rsa:server:{"clientId":"alice","password":"alice12345"}''
   \<and> fst (login test_node 1000 test_rnd ''session-1'' [] test_service request_transmitted_tag)
     = Inl (BadRequestException [''Data integrity fault''])
   \<and> fst (login test_node 1000 test_rnd ''session-1'' [] test_service request_alice)
     = Inr test_response\<close>
  by (simp add: login_transmitted_tag login_alice)
     (simp add: lib_defs test_defs json_defs request_transmitted_tag_def)

lemma stages_transmitted_tag:
  "checkNonce (nonceCache test_service) (nonceTTL test_service) 1000 (nonce request_transmitted_tag)
     = Inr (nonceCache test_service_1)"
  "decryptAsymmetricData test_node request_transmitted_tag (privateKey test_service) = Inr alice_login"
  "createMIC test_node (micPayload request_transmitted_tag alice_login) \<noteq> Inr (mic request_transmitted_tag)"
  by (simp_all add: checkNonce_def micPayload_def lib_defs test_defs json_defs
        request_transmitted_tag_def test_service_1_def)

theorem login_integrity_tag_witness:
  "checkNonce (nonceCache test_service) (nonceTTL test_service) 1000 (nonce request_transmitted_tag)
     = Inr (nonceCache test_service_1)
   \<and> decryptAsymmetricData test_node request_transmitted_tag (privateKey test_service) = Inr alice_login
   \<and> createMIC test_node (micPayload request_transmitted_tag alice_login) \<noteq> Inr (mic request_transmitted_tag)
   \<and> fst (login test_node 1000 test_rnd ''session-1'' [] test_service request_transmitted_tag)
        = Inl (BadRequestException [''Data integrity fault''])"
  using stages_transmitted_tag
    login_integrity_tag [where rnd = test_rnd and newId = "''session-1''" and seed = "[]",
      OF stages_transmitted_tag(1,2)]
  by simp

theorem login_failures_differ_counterexample:
  "fst (login test_node 1000 test_rnd ''session-1'' [] test_service request_mallory)
     = Inl (NotFoundException ''Client not found'')
   \<and> fst (login test_node 1000 test_rnd ''session-1'' [] test_service request_guess)
     = Inl (UnauthorizedException ''Invalid credentials'')
   \<and> fst (login test_node 1000 test_rnd ''session-1'' [] test_service request_mallory)
     \<noteq> fst (login test_node 1000 test_rnd ''session-1'' [] test_service request_guess)"
  by (simp add: login_mallory login_guess)

lemma stages_mallory:
  "checkNonce (nonceCache test_service) (nonceTTL test_service) 1000 (nonce request_mallory)
     = Inr (nonceCache test_service_1)"
  "decryptAsymmetricData test_node request_mallory (privateKey test_service) = Inr mallory_guess"
  "createMIC test_node (micPayload request_mallory mallory_guess) = Inr (mic request_mallory)"
  "get_property mallory_guess ''clientId'' = JStr ''mallory''"
  "get_property mallory_guess ''password'' = JStr ''guess''"
  by (simp_all add: checkNonce_def micPayload_def get_property_def lib_defs test_defs json_defs
        request_mallory_def test_service_1_def)

lemma stages_guess:
  "checkNonce (nonceCache test_service) (nonceTTL test_service) 1000 (nonce request_guess)
     = Inr (nonceCache test_service_1)"
  "decryptAsymmetricData test_node request_guess (privateKey test_service) = Inr alice_guess"
  "createMIC test_node (micPayload request_guess alice_guess) = Inr (mic request_guess)"
  "get_property alice_guess ''clientId'' = JStr ''alice''"
  "get_property alice_guess ''password'' = JStr ''guess''"
  by (simp_all add: checkNonce_def micPayload_def get_property_def lib_defs test_defs json_defs
        request_guess_def test_service_1_def)

lemma test_service_1_eq: "test_service\<lparr>nonceCache := nonceCache test_service_1\<rparr> = test_service_1"
  by (simp add: test_service_1_def)

theorem login_credential_failures_witness:
  "clientModel test_service ''mallory'' = None
   \<and> login test_node 1000 test_rnd ''session-1'' [] test_service request_mallory
        = (Inl (NotFoundException ''Client not found''), test_service_1)
   \<and> clientModel test_service ''alice'' = Some \<lparr>name = ''Alice'', password = ''940631''\<rparr>
   \<and> secureHash test_node (JStr ''guess'') \<noteq> Inr ''940631''
   \<and> login test_node 1000 test_rnd ''session-1'' [] test_service request_guess
        = (Inl (UnauthorizedException ''Invalid credentials''), test_service_1)"
proof -
  have unknown: "clientModel test_service ''mallory'' = None"
    by (simp add: test_service_def)
  have known: "clientModel test_service ''alice'' = Some \<lparr>name = ''Alice'', password = ''940631''\<rparr>"
    by (simp add: test_service_def)
  have wrong: "secureHash test_node (JStr ''guess'') \<noteq> Inr ''940631''"
    by (simp add: lib_defs test_defs json_defs)
  from login_credential_failures [where rnd = test_rnd and newId = "''session-1''" and seed = "[]",
      OF stages_mallory] unknown
  have m: "login test_node 1000 test_rnd ''session-1'' [] test_service request_mallory
        = (Inl (NotFoundException ''Client not found''), test_service_1)"
    by (simp add: test_service_1_eq)
  from login_credential_failures [where rnd = test_rnd and newId = "''session-1''" and seed = "[]",
      OF stages_guess] known wrong
  have g: "login test_node 1000 test_rnd ''session-1'' [] test_service request_guess
        = (Inl (UnauthorizedException ''Invalid credentials''), test_service_1)"
    by (simp add: test_service_1_eq)
  from unknown known wrong m g show ?thesis
    by simp
qed

theorem login_replay_witness:
  "0 < nonceTTL test_service
   \<and> login test_node 1000 test_rnd ''session-1'' [] test_service request_guess
        = (Inl (UnauthorizedException ''Invalid credentials''), test_service_1)
   \<and> nonceCache test_service_1 (nonce request_guess) = Some 301000
   \<and> login test_node 2000 test_rnd ''session-2'' [] test_service_1 request_guess
        = (Inl ReplayError, test_service_1)"
proof -
  have ttl: "0 < nonceTTL test_service" "nonceTTL test_service = 300000"
    by (simp_all add: test_service_def)
  from login_replay [OF ttl(1) login_guess] obtain e where
    e: "nonceCache test_service_1 (nonce request_guess) = Some e" "e = 1000 + nonceTTL test_service"
    and again: "\<And>env' now' rnd' newId' seed'. now' < e \<Longrightarrow>
           login env' now' rnd' newId' seed' test_service_1 request_guess = (Inl ReplayError, test_service_1)"
    by auto
  from e ttl have "e = 301000"
    by simp
  with e again [of 2000 test_node test_rnd "''session-2''" "[]"] ttl login_guess show ?thesis
    by simp
qed

theorem login_atomic_witness:
  "login test_node 1000 test_rnd ''session-1'' [] test_service request_guess
        = (Inl (UnauthorizedException ''Invalid credentials''), test_service_1)
   \<and> sessionModel test_service_1 = sessionModel test_service
   \<and> login test_node 1000 test_rnd ''session-1'' [] test_service request_alice
        = (Inr test_response, test_service_2)
   \<and> (\<exists>loginData c.
         decryptAsymmetricData test_node request_alice (privateKey test_service) = Inr loginData
       \<and> micMatch test_node (mic request_alice) (micPayload request_alice loginData) = Inr True
       \<and> validateSync loginData = []
       \<and> clientModel test_service (string_of (get_property loginData ''clientId'')) = Some c
       \<and> secureHash test_node (get_property loginData ''password'') = Inr (password c)
       \<and> sessionModel test_service_2 = sessionModel test_service @
            [\<lparr>sid = ''session-1'', sessionKey = base64_encode test_node (generateSymmetricKey test_rnd),
              client = c, clientKey = publicKey request_alice, expire = 1000 + 10 * 60 * 1000\<rparr>])"
proof -
  from login_atomic [OF login_guess]
  have unchanged: "sessionModel test_service_1 = sessionModel test_service"
    by simp
  from login_atomic [OF login_alice]
  have "\<exists>loginData c.
         decryptAsymmetricData test_node request_alice (privateKey test_service) = Inr loginData
       \<and> micMatch test_node (mic request_alice) (micPayload request_alice loginData) = Inr True
       \<and> validateSync loginData = []
       \<and> clientModel test_service (string_of (get_property loginData ''clientId'')) = Some c
       \<and> secureHash test_node (get_property loginData ''password'') = Inr (password c)
       \<and> sessionModel test_service_2 = sessionModel test_service @
            [\<lparr>sid = ''session-1'', sessionKey = base64_encode test_node (generateSymmetricKey test_rnd),
              client = c, clientKey = publicKey request_alice, expire = 1000 + 10 * 60 * 1000\<rparr>]"
    by blast
  with unchanged login_guess login_alice show ?thesis
    by simp
qed

theorem session_lifecycle_witness:
  "login test_node 1000 test_rnd ''session-1'' [] test_service request_alice
        = (Inr test_response, test_service_2)
   \<and> length (test_rnd 32) = 32
   \<and> sessionModel test_service_2 = [test_session]
   \<and> test_rnd 32 = ''r0r1r2r3r4r5r6r7r8r9rarbrcrdrerf''
   \<and> generateSymmetricKey test_rnd = test_rnd 32
   \<and> sessionKey test_session = base64_encode test_node (test_rnd 32)
   \<and> expire test_session = 1000 + 600000
   \<and> test_session \<in> set (sessionModel (checkSessions (1000 + 540000) test_service_2))
   \<and> test_session \<in> set (sessionModel (checkSessions (1000 + 600000) test_service_2))
   \<and> test_session \<notin> set (sessionModel (checkSessions (1000 + 600001) test_service_2))"
proof -
  have len: "length (test_rnd 32) = 32"
    by (simp add: test_rnd_def)
  have stored: "sessionModel test_service_2 = [test_session]" "sessionModel test_service = []"
    by (simp_all add: test_service_2_def test_service_1_def test_service_def)
  have bytes: "test_rnd 32 = ''r0r1r2r3r4r5r6r7r8r9rarbrcrdrerf''"
    by (simp add: test_rnd_def)
  from session_lifecycle [OF login_alice len] obtain s where
    s: "sessionModel test_service_2 = sessionModel test_service @ [s]"
    and k: "generateSymmetricKey test_rnd = test_rnd 32"
      "sessionKey s = base64_encode test_node (test_rnd 32)"
    and ex: "expire s = 1000 + 600000"
    and kept: "\<And>now st. distinct (map sid (sessionModel st)) \<and> s \<in> set (sessionModel st)
                    \<and> now \<le> 1000 + 600000 \<Longrightarrow> s \<in> set (sessionModel (checkSessions now st))"
    and gone: "\<And>now st. 1000 + 600000 < now \<Longrightarrow> s \<notin> set (sessionModel (checkSessions now st))"
    by blast
  from s stored have eq: "s = test_session"
    by simp
  from kept [of test_service_2 "1000 + 540000"] kept [of test_service_2 "1000 + 600000"]
    gone [of "1000 + 600001" test_service_2] eq stored k ex len bytes login_alice
  show ?thesis
    by simp
qed

end
